theory Spec2Isabelle
  imports Main "HOL-Library.Sublist"
begin

section \<open>Python values\<close>

text \<open>
  The program is one Python script, \<^verbatim>\<open>mirror_gitlab_to_github.py\<close>. It reads
  five environment variables, lists the projects of a GitLab instance page by page, and for
  each project clones or fetches a bare mirror, creates a repository on GitHub and pushes the
  mirror there.

  Everything the script receives from the two services is decoded JSON. Numbers are integers
  here (no field the script reads is a float). An object is the list of its members in the
  order the decoder inserts them into a \<^verbatim>\<open>dict\<close>: a later member with the same key
  replaces the value of an earlier one and keeps the earlier one's position.
\<close>

datatype json =
    JNull
  | JBool bool
  | JInt int
  | JStr string
  | JArr "json list"
  | JObj "(string \<times> json) list"

text \<open>The exceptions that can propagate through the script.\<close>

datatype py_error =
    HTTPError nat
  | ConnectionError
  | JSONDecodeError
  | KeyError string
  | TypeError
  | AttributeError

text \<open>Truth value of a Python object, as \<^verbatim>\<open>if x\<close>, \<^verbatim>\<open>not x\<close> and \<^verbatim>\<open>x or y\<close> take it.\<close>

fun py_truthy :: "json \<Rightarrow> bool" where
  "py_truthy JNull = False"
| "py_truthy (JBool b) = b"
| "py_truthy (JInt i) = (i \<noteq> 0)"
| "py_truthy (JStr s) = (s \<noteq> [])"
| "py_truthy (JArr xs) = (xs \<noteq> [])"
| "py_truthy (JObj kvs) = (kvs \<noteq> [])"

definition dict_lookup :: "(string \<times> json) list \<Rightarrow> string \<Rightarrow> json option" where
  "dict_lookup kvs k = map_of (rev kvs) k"

definition dict_keys :: "(string \<times> json) list \<Rightarrow> string list" where
  "dict_keys kvs = rev (remdups (rev (map fst kvs)))"

text \<open>\<^verbatim>\<open>p[key]\<close> with a string key: only a dict has such an item.\<close>

fun subscript :: "json \<Rightarrow> string \<Rightarrow> py_error + json" where
  "subscript (JObj kvs) k =
     (case dict_lookup kvs k of None \<Rightarrow> Inl (KeyError k) | Some v \<Rightarrow> Inr v)"
| "subscript _ k = Inl TypeError"

text \<open>\<^verbatim>\<open>d.get(key, default)\<close> on a dict.\<close>

definition dict_get :: "(string \<times> json) list \<Rightarrow> string \<Rightarrow> json \<Rightarrow> json" where
  "dict_get kvs k dflt = (case dict_lookup kvs k of None \<Rightarrow> dflt | Some v \<Rightarrow> v)"

text \<open>
  The items \<^verbatim>\<open>list.extend(x)\<close> appends, and so also \<^verbatim>\<open>len(x)\<close> many: the elements of
  an array, the keys of an object, the characters of a string. Anything else is not iterable.
\<close>

fun py_iter :: "json \<Rightarrow> py_error + json list" where
  "py_iter (JArr xs) = Inr xs"
| "py_iter (JObj kvs) = Inr (map JStr (dict_keys kvs))"
| "py_iter (JStr s) = Inr (map (\<lambda>c. JStr [c]) s)"
| "py_iter _ = Inl TypeError"

text \<open>
  An f-string is kept as its parts, literal text and substituted values, in order. The text
  that Python's \<^verbatim>\<open>str\<close> gives a substituted value is spelled out for strings only.
\<close>

datatype fpart = Lit string | Sub json | SubErr py_error

type_synonym fstring = "fpart list"

fun part_text :: "fpart \<Rightarrow> string option" where
  "part_text (Lit s) = Some s"
| "part_text (Sub (JStr s)) = Some s"
| "part_text _ = None"

fun fstring_text :: "fstring \<Rightarrow> string option" where
  "fstring_text [] = Some []"
| "fstring_text (x # xs) =
     (case part_text x of None \<Rightarrow> None
      | Some s \<Rightarrow> (case fstring_text xs of None \<Rightarrow> None | Some t \<Rightarrow> Some (s @ t)))"

section \<open>Configuration\<close>

text \<open>
  Lines 7 to 17 of the script. The environment is a map from names to values.
  \<^verbatim>\<open>all([...])\<close> is false as soon as one variable is absent or empty; where it is
  true the three variables read without a default are present, and the record holds their
  values.
\<close>

record config =
  GITLAB_URL :: string
  GITLAB_TOKEN :: string
  GITHUB_ORG :: string
  GITHUB_TOKEN :: string
  CLONE_BASE :: string

definition rstrip :: "char \<Rightarrow> string \<Rightarrow> string" where
  "rstrip c s = rev (dropWhile (\<lambda>x. x = c) (rev s))"

definition environ_get :: "(string \<rightharpoonup> string) \<Rightarrow> string \<Rightarrow> string \<Rightarrow> string" where
  "environ_get environ k dflt = (case environ k of None \<Rightarrow> dflt | Some v \<Rightarrow> v)"

definition str_truthy :: "string option \<Rightarrow> bool" where
  "str_truthy v = (case v of None \<Rightarrow> False | Some s \<Rightarrow> s \<noteq> [])"

definition load_config :: "(string \<rightharpoonup> string) \<Rightarrow> config option" where
  "load_config environ =
     (let gitlab_url = rstrip CHR ''/'' (environ_get environ ''GITLAB_URL'' []);
          gitlab_token = environ ''GITLAB_TOKEN'';
          github_org = environ ''GITHUB_ORG'';
          github_token = environ ''GITHUB_TOKEN'';
          clone_base = environ_get environ ''CLONE_BASE'' ''./gitlab-mirror''
      in if list_all str_truthy [Some gitlab_url, gitlab_token, github_org, github_token]
         then Some \<lparr>GITLAB_URL = gitlab_url,
                     GITLAB_TOKEN = environ_get environ ''GITLAB_TOKEN'' [],
                     GITHUB_ORG = environ_get environ ''GITHUB_ORG'' [],
                     GITHUB_TOKEN = environ_get environ ''GITHUB_TOKEN'' [],
                     CLONE_BASE = clone_base\<rparr>
         else None)"

section \<open>Requests and effects\<close>

text \<open>
  An HTTP response as the script reads it: the status, the body as text, and what
  \<^verbatim>\<open>r.json()\<close> decodes the body to (\<open>None\<close> when it is not JSON). A service is a
  function from the request to either the exception the transport raises or the response.
\<close>

record response =
  status_code :: nat
  body_text :: string
  body_json :: "json option"

record list_params =
  q_simple :: bool
  q_membership :: bool
  q_per_page :: nat
  q_page :: nat
  q_order_by :: string
  q_sort :: string

record get_request =
  get_url :: string
  get_headers :: "(string \<times> string) list"
  get_params :: list_params

record payload =
  p_name :: json
  p_description :: json
  p_private :: bool
  p_auto_init :: bool

record post_request =
  post_url :: string
  post_headers :: "(string \<times> string) list"
  post_json :: payload

text \<open>What the script does to the outside world, in the order it does it.\<close>

datatype effect =
    Print fstring
  | Subprocess fstring "string option"
  | HttpGet get_request
  | HttpPost post_request
  | PathExists string
  | MakeDirs string
  | Sleep nat

text \<open>
  \<^verbatim>\<open>Response.raise_for_status\<close> of the requests library: a client error (4xx) or a server
  error (5xx) raises, every other status passes.
\<close>

definition raise_for_status :: "response \<Rightarrow> py_error + unit" where
  "raise_for_status r =
     (if 400 \<le> status_code r \<and> status_code r < 600 then Inl (HTTPError (status_code r))
      else Inr ())"

definition response_json :: "response \<Rightarrow> py_error + json" where
  "response_json r = (case body_json r of None \<Rightarrow> Inl JSONDecodeError | Some j \<Rightarrow> Inr j)"

section \<open>Helpers\<close>

text \<open>
  \<^verbatim>\<open>run\<close> (lines 21 to 26). The first argument is the status the subprocess ends with.
\<close>

definition run :: "int \<Rightarrow> fstring \<Rightarrow> string option \<Rightarrow> effect list \<times> int" where
  "run returncode cmd cwd =
     ([Print ([Lit [CHR 0x0A], Lit ''>> ''] @ cmd), Subprocess cmd cwd]
        @ (if returncode \<noteq> 0
           then [Print [Lit ''Command failed with code '', Sub (JInt returncode)]] else []),
      returncode)"

text \<open>\<^verbatim>\<open>gitlab_get\<close> (lines 28 to 33).\<close>

definition gitlab_get ::
  "config \<Rightarrow> (get_request \<Rightarrow> py_error + response) \<Rightarrow> string \<Rightarrow> list_params
     \<Rightarrow> effect list \<times> (py_error + response)" where
  "gitlab_get cfg gitlab path params =
     (let headers = [(''PRIVATE-TOKEN'', GITLAB_TOKEN cfg)];
          url = GITLAB_URL cfg @ ''/api/v4'' @ path;
          req = \<lparr>get_url = url, get_headers = headers, get_params = params\<rparr>
      in ([HttpGet req],
          (case gitlab req of
             Inl e \<Rightarrow> Inl e
           | Inr r \<Rightarrow> (case raise_for_status r of Inl e \<Rightarrow> Inl e | Inr _ \<Rightarrow> Inr r))))"

text \<open>
  \<^verbatim>\<open>list_all_gitlab_projects\<close> (lines 35 to 55). The \<^verbatim>\<open>while True\<close> loop need not
  end (a service that answers every page with a full page keeps it running), so the loop
  is a partial function: \<open>None\<close> is the run that never returns.
\<close>

definition projects_params :: "nat \<Rightarrow> nat \<Rightarrow> list_params" where
  "projects_params per_page page =
     \<lparr>q_simple = True, q_membership = False, q_per_page = per_page, q_page = page,
      q_order_by = ''id'', q_sort = ''asc''\<rparr>"

partial_function (option) list_loop ::
  "config \<Rightarrow> (get_request \<Rightarrow> py_error + response) \<Rightarrow> nat \<Rightarrow> json list \<Rightarrow> nat \<Rightarrow> effect list
     \<Rightarrow> (effect list \<times> (py_error + json list)) option" where
  "list_loop cfg gitlab per_page projects page log =
     (case gitlab_get cfg gitlab ''/projects'' (projects_params per_page page) of
        (es, Inl e) \<Rightarrow> Some (log @ es, Inl e)
      | (es, Inr r) \<Rightarrow>
          (case response_json r of
             Inl e \<Rightarrow> Some (log @ es, Inl e)
           | Inr batch \<Rightarrow>
               if \<not> py_truthy batch then Some (log @ es, Inr projects)
               else (case py_iter batch of
                       Inl e \<Rightarrow> Some (log @ es, Inl e)
                     | Inr items \<Rightarrow>
                         if length items < per_page then Some (log @ es, Inr (projects @ items))
                         else list_loop cfg gitlab per_page (projects @ items) (page + 1)
                                (log @ es))))"

definition list_all_gitlab_projects ::
  "config \<Rightarrow> (get_request \<Rightarrow> py_error + response)
     \<Rightarrow> (effect list \<times> (py_error + json list)) option" where
  "list_all_gitlab_projects cfg gitlab = list_loop cfg gitlab 100 [] 1 []"

text \<open>
  \<^verbatim>\<open>create_github_repo\<close> (lines 57 to 76). The first argument is what
  \<^verbatim>\<open>requests.post\<close> does with the request: the exception it raises or the response it
  returns. The URL the function returns is only ever formatted into text by its caller, so
  it is kept as the f-string parts that produce it: the one substituted value of the
  response on success, the parts of line 73 on a name conflict.
\<close>

definition create_github_repo ::
  "config \<Rightarrow> py_error + response \<Rightarrow> json \<Rightarrow> json \<Rightarrow> bool \<Rightarrow> effect list \<times> (py_error + fstring)" where
  "create_github_repo cfg reply name description private =
     (let url = ''https://api.github.com/orgs/'' @ GITHUB_ORG cfg @ ''/repos'';
          headers = [(''Authorization'', ''token '' @ GITHUB_TOKEN cfg),
                     (''Accept'', ''application/vnd.github+json'')];
          payload = \<lparr>p_name = name, p_description = description, p_private = private,
                      p_auto_init = False\<rparr>;
          req = \<lparr>post_url = url, post_headers = headers, post_json = payload\<rparr>
      in case reply of
           Inl e \<Rightarrow> ([HttpPost req], Inl e)
         | Inr r \<Rightarrow>
             if status_code r = 422 \<and> sublist ''name already exists'' (body_text r)
             then ([HttpPost req,
                    Print [Lit ''GitHub repo '', Sub name, Lit '' already exists, reusing.'']],
                   Inr [Lit ''https://github.com/'', Lit (GITHUB_ORG cfg), Lit ''/'', Sub name,
                        Lit ''.git''])
             else (case raise_for_status r of
                     Inl e \<Rightarrow> ([HttpPost req], Inl e)
                   | Inr _ \<Rightarrow>
                       (case response_json r of
                          Inl e \<Rightarrow> ([HttpPost req], Inl e)
                        | Inr data \<Rightarrow>
                            (case subscript data ''clone_url'' of
                               Inl e \<Rightarrow> ([HttpPost req], Inl e)
                             | Inr v \<Rightarrow> ([HttpPost req], Inr [Sub v])))))"

section \<open>Paths\<close>

text \<open>
  \<^verbatim>\<open>str.replace\<close> with a one-character pattern, and \<^verbatim>\<open>os.path.join\<close> and
  \<^verbatim>\<open>os.path.dirname\<close> of \<^verbatim>\<open>posixpath\<close>, on two components.
\<close>

definition str_replace :: "char \<Rightarrow> string \<Rightarrow> string \<Rightarrow> string" where
  "str_replace old new s = concat (map (\<lambda>c. if c = old then new else [c]) s)"

definition path_join :: "string \<Rightarrow> string \<Rightarrow> string" where
  "path_join a b =
     (if prefix ''/'' b then b
      else if a = [] \<or> suffix ''/'' a then a @ b
      else a @ ''/'' @ b)"

definition dirname :: "string \<Rightarrow> string" where
  "dirname p =
     (let head = rev (dropWhile (\<lambda>c. c \<noteq> CHR ''/'') (rev p))
      in if head \<noteq> [] \<and> \<not> list_all (\<lambda>c. c = CHR ''/'') head then rstrip CHR ''/'' head
         else head)"

text \<open>Line 97: the directory of a project's bare mirror.\<close>

definition local_dir_name :: "string \<Rightarrow> string" where
  "local_dir_name full_path = str_replace CHR ''/'' ''__'' full_path @ ''.git''"

definition local_dir_of :: "config \<Rightarrow> string \<Rightarrow> string" where
  "local_dir_of cfg full_path = path_join (CLONE_BASE cfg) (local_dir_name full_path)"

section \<open>The main loop\<close>

text \<open>
  What the outside world answers while one project is processed: whether the mirror
  directory exists, the exit status of each git command, and the outcome of the POST to
  GitHub. One iteration of the loop reads at most these.
\<close>

record replies =
  dir_exists :: bool
  clone_status :: int
  fetch_status :: int
  github_reply :: "py_error + response"
  remote_remove_status :: int
  remote_add_status :: int
  push_status :: int

text \<open>
  How one iteration of the \<^verbatim>\<open>for\<close> loop ends: at the end of the body, at one of the
  six \<^verbatim>\<open>continue\<close> statements, or with an exception that nothing catches.
\<close>

datatype reason = Archived | CloneError | FetchError | CreateError | RemoteAddError | PushError

datatype outcome = Completed | Skipped reason | Raised py_error

text \<open>\<^verbatim>\<open>p.get(key, default)\<close> on any value: only a dict has the method.\<close>

fun py_get :: "json \<Rightarrow> string \<Rightarrow> json \<Rightarrow> py_error + json" where
  "py_get (JObj kvs) k dflt = Inr (dict_get kvs k dflt)"
| "py_get _ k dflt = Inl AttributeError"

definition py_or :: "json \<Rightarrow> json \<Rightarrow> json" where
  "py_or x y = (if py_truthy x then x else y)"

text \<open>Lines 124 to 138: register the remote, push, sleep.\<close>

definition push_mirror :: "replies \<Rightarrow> json \<Rightarrow> string \<Rightarrow> fstring \<Rightarrow> effect list \<times> outcome" where
  "push_mirror a full_path local_dir gh_url =
     (let shown = [Print (Lit ''GitHub repo URL: '' # gh_url)];
          (es1, rc1) = run (remote_remove_status a) [Lit ''git remote remove github'']
                         (Some local_dir);
          (es2, rc2) = run (remote_add_status a)
                         ([Lit ''git remote add github \"''] @ gh_url @ [Lit ''\"''])
                         (Some local_dir)
      in if rc2 \<noteq> 0
         then (shown @ es1 @ es2
                 @ [Print [Lit ''Failed to add github remote for '', Sub full_path]],
               Skipped RemoteAddError)
         else (let (es3, rc3) = run (push_status a) [Lit ''git push --mirror github'']
                                  (Some local_dir)
               in if rc3 \<noteq> 0
                  then (shown @ es1 @ es2 @ es3
                          @ [Print [Lit ''Mirror push failed for '', Sub full_path]],
                        Skipped PushError)
                  else (shown @ es1 @ es2 @ es3 @ [Sleep 1], Completed)))"

text \<open>
  Lines 113 to 122, and then the push: create the GitHub repository. Every exception raised
  inside the \<^verbatim>\<open>try\<close> block, also while the arguments are evaluated, is caught.
\<close>

definition create_and_push ::
  "config \<Rightarrow> json \<Rightarrow> replies \<Rightarrow> string \<Rightarrow> json \<Rightarrow> string \<Rightarrow> effect list \<times> outcome" where
  "create_and_push cfg p a full_path proj_name local_dir =
     (let gh_repo_name = proj_name;
          failed = (\<lambda>e. [Print [Lit ''Failed to create GitHub repo for '', Sub (JStr full_path),
                                  Lit '': '', SubErr e]])
      in
      case py_get p ''description'' JNull of
        Inl e \<Rightarrow> (failed e, Skipped CreateError)
      | Inr d \<Rightarrow>
          (case py_get p ''public'' (JBool False) of
             Inl e \<Rightarrow> (failed e, Skipped CreateError)
           | Inr pub \<Rightarrow>
               (case create_github_repo cfg (github_reply a) gh_repo_name
                       (py_or d (JStr (''Mirror of '' @ full_path @ '' from '' @ GITLAB_URL cfg)))
                       (\<not> py_truthy pub) of
                  (es, Inl e) \<Rightarrow> (es @ failed e, Skipped CreateError)
                | (es, Inr gh_url) \<Rightarrow>
                    (case push_mirror a (JStr full_path) local_dir gh_url of
                       (es', out) \<Rightarrow> (es @ es', out)))))"

text \<open>Lines 94 to 110, and then the rest: clone the mirror or fetch into it.\<close>

definition sync_project ::
  "config \<Rightarrow> json \<Rightarrow> replies \<Rightarrow> json \<Rightarrow> json \<Rightarrow> json \<Rightarrow> effect list \<times> outcome" where
  "sync_project cfg p a full_path proj_name http_url =
     (let banner = [Print [Lit [CHR 0x0A], Lit ''=== Processing '', Sub full_path, Lit '' ==='']]
      in case full_path of
           JStr fp \<Rightarrow>
             (let local_dir = local_dir_of cfg fp in
              if \<not> dir_exists a
              then (let clone_cmd = [Lit ''git -c http.sslVerify=false clone --mirror \"'',
                                     Sub http_url, Lit ''\" \"'', Lit local_dir, Lit ''\"''];
                        (es, rc) = run (clone_status a) clone_cmd None
                    in if rc \<noteq> 0
                       then (banner @ [PathExists local_dir, MakeDirs (dirname local_dir)] @ es
                               @ [Print [Lit ''Skipping '', Sub full_path,
                                         Lit '' due to clone error'']],
                             Skipped CloneError)
                       else (case create_and_push cfg p a fp proj_name local_dir of
                               (es', out) \<Rightarrow>
                                 (banner @ [PathExists local_dir, MakeDirs (dirname local_dir)]
                                    @ es @ es', out)))
              else (let noted = [Print [Lit ''Local mirror exists for '', Sub full_path,
                                        Lit '', fetching updates'']];
                        (es, rc) = run (fetch_status a) [Lit ''git fetch --all --prune'']
                                     (Some local_dir)
                    in if rc \<noteq> 0
                       then (banner @ [PathExists local_dir] @ noted @ es
                               @ [Print [Lit ''Skipping '', Sub full_path,
                                         Lit '' due to fetch error'']],
                             Skipped FetchError)
                       else (case create_and_push cfg p a fp proj_name local_dir of
                               (es', out) \<Rightarrow>
                                 (banner @ [PathExists local_dir] @ noted @ es @ es', out))))
         | _ \<Rightarrow> (banner, Raised AttributeError))"

text \<open>Lines 85 to 92, and then the rest: one iteration of the loop over the projects.\<close>

definition process_project :: "config \<Rightarrow> json \<Rightarrow> replies \<Rightarrow> effect list \<times> outcome" where
  "process_project cfg p a =
     (case subscript p ''path_with_namespace'' of
        Inl e \<Rightarrow> ([], Raised e)
      | Inr full_path \<Rightarrow>
          (case subscript p ''path'' of
             Inl e \<Rightarrow> ([], Raised e)
           | Inr proj_name \<Rightarrow>
               (case subscript p ''http_url_to_repo'' of
                  Inl e \<Rightarrow> ([], Raised e)
                | Inr http_url \<Rightarrow>
                    (case py_get p ''archived'' JNull of
                       Inl e \<Rightarrow> ([], Raised e)
                     | Inr archived \<Rightarrow>
                         if py_truthy archived
                         then ([Print [Lit ''Skipping archived project '', Sub full_path]],
                               Skipped Archived)
                         else sync_project cfg p a full_path proj_name http_url))))"

text \<open>
  The loop of \<^verbatim>\<open>main\<close> (lines 84 to 138), over the projects paired with the replies
  the world gives while each is processed. An exception that leaves an iteration ends the
  loop.
\<close>

fun main_loop :: "config \<Rightarrow> (json \<times> replies) list \<Rightarrow> effect list \<times> py_error option" where
  "main_loop cfg [] = ([], None)"
| "main_loop cfg ((p, a) # rest) =
     (case process_project cfg p a of
        (es, Raised e) \<Rightarrow> (es, Some e)
      | (es, _) \<Rightarrow> (case main_loop cfg rest of (es', r) \<Rightarrow> (es @ es', r)))"

text \<open>
  \<^verbatim>\<open>main\<close> (lines 80 to 138). \<open>world i\<close> is what the world answers while the project at
  position \<open>i\<close> of the listing is processed.
\<close>

definition main ::
  "config \<Rightarrow> (get_request \<Rightarrow> py_error + response) \<Rightarrow> (nat \<Rightarrow> replies)
     \<Rightarrow> (effect list \<times> py_error option) option" where
  "main cfg gitlab world =
     (case list_all_gitlab_projects cfg gitlab of
        None \<Rightarrow> None
      | Some (es, Inl e) \<Rightarrow> Some (es, Some e)
      | Some (es, Inr projects) \<Rightarrow>
          (case main_loop cfg (zip projects (map world [0..<length projects])) of
             (es', r) \<Rightarrow>
               Some (es @ [Print [Lit ''Found '', Sub (JInt (int (length projects))),
                                  Lit '' GitLab projects'']] @ es', r)))"

text \<open>
  The script as a whole: the effects and the exit status of the process, \<open>1\<close> after
  \<^verbatim>\<open>sys.exit(1)\<close> and after an exception that nothing catches, \<open>0\<close> at the end of
  \<^verbatim>\<open>main\<close>.
\<close>

definition script ::
  "(string \<rightharpoonup> string) \<Rightarrow> (get_request \<Rightarrow> py_error + response) \<Rightarrow> (nat \<Rightarrow> replies)
     \<Rightarrow> (effect list \<times> nat) option" where
  "script environ gitlab world =
     (case load_config environ of
        None \<Rightarrow>
          Some ([Print [Lit ''Missing one of GITLAB_URL, GITLAB_TOKEN, GITHUB_ORG, GITHUB_TOKEN env vars'']], 1)
      | Some cfg \<Rightarrow>
          (case main cfg gitlab world of
             None \<Rightarrow> None
           | Some (es, None) \<Rightarrow> Some (MakeDirs (CLONE_BASE cfg) # es, 0)
           | Some (es, Some e) \<Rightarrow> Some (MakeDirs (CLONE_BASE cfg) # es, 1)))"

section \<open>Vocabulary of the properties\<close>

text \<open>The request that \<^verbatim>\<open>gitlab_get\<close> sends for one page of the listing.\<close>

definition page_request :: "config \<Rightarrow> nat \<Rightarrow> nat \<Rightarrow> get_request" where
  "page_request cfg per_page page =
     \<lparr>get_url = GITLAB_URL cfg @ ''/api/v4/projects'',
      get_headers = [(''PRIVATE-TOKEN'', GITLAB_TOKEN cfg)],
      get_params = projects_params per_page page\<rparr>"

text \<open>
  The source serves a page: it answers the request with a status that
  \<^verbatim>\<open>raise_for_status\<close> lets pass and a body that is the JSON array of the items.
\<close>

definition serves :: "(get_request \<Rightarrow> py_error + response) \<Rightarrow> get_request \<Rightarrow> json list \<Rightarrow> bool" where
  "serves gitlab req items =
     (case gitlab req of
        Inl e \<Rightarrow> False
      | Inr r \<Rightarrow> raise_for_status r = Inr () \<and> body_json r = Some (JArr items))"

text \<open>
  A project descriptor as the listing documents it: an object with the three keys the loop
  subscripts, the full path a string.
\<close>

definition well_formed :: "json \<Rightarrow> bool" where
  "well_formed p =
     (case p of
        JObj kvs \<Rightarrow>
          (case dict_lookup kvs ''path_with_namespace'' of Some (JStr fp) \<Rightarrow> True | _ \<Rightarrow> False)
          \<and> dict_lookup kvs ''path'' \<noteq> None
          \<and> dict_lookup kvs ''http_url_to_repo'' \<noteq> None
      | _ \<Rightarrow> False)"


text \<open>GitHub answers a creation request with a name conflict (line 71).\<close>

definition name_conflict :: "response \<Rightarrow> bool" where
  "name_conflict r = (status_code r = 422 \<and> sublist ''name already exists'' (body_text r))"

text \<open>
  The POST ends without an exception in \<^verbatim>\<open>create_github_repo\<close>: a name conflict, or a
  status that passes with a JSON object that has a \<^verbatim>\<open>clone_url\<close>.
\<close>

definition reply_ok :: "py_error + response \<Rightarrow> bool" where
  "reply_ok reply =
     (case reply of
        Inl e \<Rightarrow> False
      | Inr r \<Rightarrow>
          name_conflict r
          \<or> (raise_for_status r = Inr ()
              \<and> (case body_json r of
                    Some (JObj kvs) \<Rightarrow> dict_lookup kvs ''clone_url'' \<noteq> None
                  | _ \<Rightarrow> False)))"

text \<open>
  The clone URL that line 73 builds for a name that is a string, as text, and the text of the
  URL a call returns (\<open>None\<close> when the call raises).
\<close>

definition repo_clone_url :: "config \<Rightarrow> string \<Rightarrow> string" where
  "repo_clone_url cfg name = ''https://github.com/'' @ GITHUB_ORG cfg @ ''/'' @ name @ ''.git''"

definition returned_url ::
  "config \<Rightarrow> py_error + response \<Rightarrow> json \<Rightarrow> json \<Rightarrow> bool \<Rightarrow> string option" where
  "returned_url cfg reply name description private =
     (case snd (create_github_repo cfg reply name description private) of
        Inl e \<Rightarrow> None
      | Inr u \<Rightarrow> fstring_text u)"

text \<open>GitHub creates the repository and reports the given clone URL.\<close>

definition creates :: "response \<Rightarrow> string \<Rightarrow> bool" where
  "creates r url =
     (raise_for_status r = Inr ()
      \<and> (case body_json r of
            Some (JObj kvs) \<Rightarrow> dict_lookup kvs ''clone_url'' = Some (JStr url)
          | _ \<Rightarrow> False))"

text \<open>Every step of one project succeeds: the clone or the fetch, the POST, the remote, the push.\<close>

definition steps_succeed :: "replies \<Rightarrow> bool" where
  "steps_succeed a =
     ((if dir_exists a then fetch_status a = 0 else clone_status a = 0)
      \<and> reply_ok (github_reply a) \<and> remote_add_status a = 0 \<and> push_status a = 0)"

text \<open>
  The state machine of one project, read off the replies: which \<^verbatim>\<open>continue\<close> ends the
  iteration, if any. \<open>after_sync\<close> is the part after the clone or the fetch.
\<close>

definition after_sync :: "replies \<Rightarrow> outcome" where
  "after_sync a =
     (if \<not> reply_ok (github_reply a) then Skipped CreateError
      else if remote_add_status a \<noteq> 0 then Skipped RemoteAddError
      else if push_status a \<noteq> 0 then Skipped PushError
      else Completed)"

definition expected_outcome :: "bool \<Rightarrow> replies \<Rightarrow> outcome" where
  "expected_outcome archived a =
     (if archived then Skipped Archived
      else if dir_exists a then (if fetch_status a \<noteq> 0 then Skipped FetchError else after_sync a)
      else (if clone_status a \<noteq> 0 then Skipped CloneError else after_sync a))"


definition sync_succeeds :: "replies \<Rightarrow> bool" where
  "sync_succeeds a = (if dir_exists a then fetch_status a = 0 else clone_status a = 0)"

text \<open>The descriptor of a project is marked archived (line 90).\<close>

definition is_archived :: "json \<Rightarrow> bool" where
  "is_archived p = (case py_get p ''archived'' JNull of Inl e \<Rightarrow> False | Inr v \<Rightarrow> py_truthy v)"



text \<open>The effects that are pauses, and those that are requests to GitHub.\<close>

fun is_sleep :: "effect \<Rightarrow> bool" where
  "is_sleep (Sleep n) = True"
| "is_sleep e = False"

fun is_post :: "effect \<Rightarrow> bool" where
  "is_post (HttpPost req) = True"
| "is_post e = False"

text \<open>
  The creation request of lines 57 to 70 for a descriptor with the members \<open>kvs\<close>, the full
  path and the leaf name given.
\<close>

definition creation_request :: "config \<Rightarrow> (string \<times> json) list \<Rightarrow> string \<Rightarrow> json \<Rightarrow> post_request" where
  "creation_request cfg kvs full_path proj_name =
     \<lparr>post_url = ''https://api.github.com/orgs/'' @ GITHUB_ORG cfg @ ''/repos'',
      post_headers = [(''Authorization'', ''token '' @ GITHUB_TOKEN cfg),
                      (''Accept'', ''application/vnd.github+json'')],
      post_json =
        \<lparr>p_name = proj_name,
         p_description = py_or (dict_get kvs ''description'' JNull)
                           (JStr (''Mirror of '' @ full_path @ '' from '' @ GITLAB_URL cfg)),
         p_private = (case dict_lookup kvs ''public'' of None \<Rightarrow> True | Some v \<Rightarrow> \<not> py_truthy v),
         p_auto_init = False\<rparr>\<rparr>"

text \<open>
  Full paths in which no underscore stands next to another underscore or to a separator, and
  the function that reads a flat name back (two underscores are a separator).
\<close>

fun separable :: "string \<Rightarrow> bool" where
  "separable (c # d # cs) =
     ((c = CHR ''_'' \<longrightarrow> d \<noteq> CHR ''_'' \<and> d \<noteq> CHR ''/'')
      \<and> (c = CHR ''/'' \<longrightarrow> d \<noteq> CHR ''_'') \<and> separable (d # cs))"
| "separable cs = True"

fun unflatten :: "string \<Rightarrow> string" where
  "unflatten (c # d # cs) =
     (if c = CHR ''_'' \<and> d = CHR ''_'' then CHR ''/'' # unflatten cs else c # unflatten (d # cs))"
| "unflatten cs = cs"

section \<open>Example inputs\<close>

definition example_config :: config where
  "example_config =
     \<lparr>GITLAB_URL = ''https://gitlab.example.com'', GITLAB_TOKEN = ''glpat'',
      GITHUB_ORG = ''acme'', GITHUB_TOKEN = ''ghp'', CLONE_BASE = ''./gitlab-mirror''\<rparr>"

definition example_environ :: "string \<rightharpoonup> string" where
  "example_environ =
     [''GITLAB_URL'' \<mapsto> ''https://gitlab.example.com/'', ''GITLAB_TOKEN'' \<mapsto> ''glpat'',
      ''GITHUB_ORG'' \<mapsto> ''acme'', ''GITHUB_TOKEN'' \<mapsto> ''ghp'']"

text \<open>A page of the listing; the script never reads the text of such a response.\<close>

definition ok_response :: "json \<Rightarrow> response" where
  "ok_response j = \<lparr>status_code = 200, body_text = [], body_json = Some j\<rparr>"

definition project :: "string \<Rightarrow> string \<Rightarrow> (string \<times> json) list \<Rightarrow> json" where
  "project namespace leaf extra =
     JObj ([(''path_with_namespace'', JStr (namespace @ ''/'' @ leaf)), (''path'', JStr leaf),
            (''http_url_to_repo'',
             JStr (''https://gitlab.example.com/'' @ namespace @ ''/'' @ leaf @ ''.git''))]
           @ extra)"

definition alpha :: json where
  "alpha = project ''team'' ''alpha'' [(''archived'', JBool False), (''public'', JBool True)]"

definition beta :: json where
  "beta = project ''team'' ''beta'' [(''archived'', JBool True)]"

definition gamma :: json where
  "gamma = project ''team'' ''gamma'' []"

definition delta :: json where
  "delta = project ''team'' ''delta'' [(''public'', JStr ''yes'')]"

definition two_pages :: "get_request \<Rightarrow> py_error + response" where
  "two_pages req =
     Inr (ok_response (JArr (if q_page (get_params req) = 1 then replicate 100 alpha
                             else if q_page (get_params req) = 2 then [beta] else [])))"

definition same_twice :: "get_request \<Rightarrow> py_error + response" where
  "same_twice req = Inr (ok_response (JArr [alpha, alpha]))"

definition created :: "string \<Rightarrow> response" where
  "created url =
     \<lparr>status_code = 201, body_text = ''{\"clone_url\":\"'' @ url @ ''\"}'',
      body_json = Some (JObj [(''clone_url'', JStr url)])\<rparr>"

definition conflict :: response where
  "conflict =
     \<lparr>status_code = 422,
      body_text = ''{\"message\":\"Repository creation failed.\",\"errors\":[{\"message\":\"name already exists on this account\"}]}'',
      body_json = Some (JObj [(''message'', JStr ''Repository creation failed.''),
                              (''errors'', JArr [JObj [(''message'',
                                 JStr ''name already exists on this account'')]])])\<rparr>"

definition moved :: "string \<Rightarrow> response" where
  "moved url =
     \<lparr>status_code = 302, body_text = ''{\"clone_url\":\"'' @ url @ ''\"}'',
      body_json = Some (JObj [(''clone_url'', JStr url)])\<rparr>"

definition server_error :: response where
  "server_error = \<lparr>status_code = 500, body_text = ''Internal Server Error'', body_json = None\<rparr>"

definition all_fine :: "string \<Rightarrow> replies" where
  "all_fine url =
     \<lparr>dir_exists = False, clone_status = 0, fetch_status = 0, github_reply = Inr (created url),
      remote_remove_status = 2, remote_add_status = 0, push_status = 0\<rparr>"

definition create_fails :: replies where
  "create_fails =
     \<lparr>dir_exists = True, clone_status = 0, fetch_status = 0, github_reply = Inr server_error,
      remote_remove_status = 0, remote_add_status = 0, push_status = 0\<rparr>"

definition three_projects :: "get_request \<Rightarrow> py_error + response" where
  "three_projects req = Inr (ok_response (JArr [alpha, gamma, delta]))"

definition world_b_fails :: "nat \<Rightarrow> replies" where
  "world_b_fails i =
     (if i = 1 then create_fails else all_fine ''https://github.com/acme/alpha.git'')"

section \<open>The listing\<close>

lemma gitlab_get_serves:
  assumes "serves gitlab (page_request cfg per_page page) items"
  shows "\<exists>r. gitlab_get cfg gitlab ''/projects'' (projects_params per_page page)
           = ([HttpGet (page_request cfg per_page page)], Inr r)
         \<and> response_json r = Inr (JArr items)"
  using assms
  by (auto simp: serves_def gitlab_get_def page_request_def response_json_def Let_def
           split: sum.splits)

text \<open>A page shorter than the page size ends the loop, an empty one included.\<close>

lemma list_loop_last:
  assumes "serves gitlab (page_request cfg per_page page) items"
    and "length items < per_page"
  shows "list_loop cfg gitlab per_page projects page log
         = Some (log @ [HttpGet (page_request cfg per_page page)], Inr (projects @ items))"
proof -
  obtain r where r: "gitlab_get cfg gitlab ''/projects'' (projects_params per_page page)
           = ([HttpGet (page_request cfg per_page page)], Inr r)"
     "response_json r = Inr (JArr items)"
    using gitlab_get_serves [OF assms(1)] by blast
  show ?thesis
    by (subst list_loop.simps) (simp add: r assms(2))
qed

text \<open>A full page sends the loop to the next page.\<close>

lemma list_loop_full:
  assumes "serves gitlab (page_request cfg per_page page) items"
    and "per_page \<le> length items" and "0 < per_page"
  shows "list_loop cfg gitlab per_page projects page log
         = list_loop cfg gitlab per_page (projects @ items) (Suc page)
             (log @ [HttpGet (page_request cfg per_page page)])"
proof -
  obtain r where r: "gitlab_get cfg gitlab ''/projects'' (projects_params per_page page)
           = ([HttpGet (page_request cfg per_page page)], Inr r)"
     "response_json r = Inr (JArr items)"
    using gitlab_get_serves [OF assms(1)] by blast
  from assms(2,3) have ne: "items \<noteq> []" by auto
  show ?thesis
    by (subst list_loop.simps) (use assms(2) ne in \<open>simp add: r\<close>)
qed

lemma list_loop_pages:
  assumes "0 < per_page"
    and "\<And>j. page \<le> j \<Longrightarrow> j \<le> k \<Longrightarrow> serves gitlab (page_request cfg per_page j) (pgs j)"
    and "\<And>j. page \<le> j \<Longrightarrow> j < k \<Longrightarrow> per_page \<le> length (pgs j)"
    and "length (pgs k) < per_page"
    and "page \<le> k"
  shows "list_loop cfg gitlab per_page projects page log
         = Some (log @ map (\<lambda>j. HttpGet (page_request cfg per_page j)) [page..<Suc k],
                 Inr (projects @ concat (map pgs [page..<Suc k])))"
  using assms(2,3,5)
proof (induction "k - page" arbitrary: page projects log)
  case 0
  then have "page = k" by simp
  with 0 assms(4) show ?case
    by (simp add: list_loop_last)
next
  case (Suc n)
  then have lt: "page < k" by simp
  have step: "list_loop cfg gitlab per_page projects page log
         = list_loop cfg gitlab per_page (projects @ pgs page) (Suc page)
             (log @ [HttpGet (page_request cfg per_page page)])"
    using Suc.prems(1) [of page] Suc.prems(2) [of page] lt assms(1)
    by (intro list_loop_full) auto
  have rest: "list_loop cfg gitlab per_page (projects @ pgs page) (Suc page)
             (log @ [HttpGet (page_request cfg per_page page)])
        = Some ((log @ [HttpGet (page_request cfg per_page page)])
                  @ map (\<lambda>j. HttpGet (page_request cfg per_page j)) [Suc page..<Suc k],
                Inr ((projects @ pgs page) @ concat (map pgs [Suc page..<Suc k])))"
    using Suc.hyps(2) Suc.prems lt
    by (intro Suc.hyps(1)) auto
  have up: "[page..<Suc k] = page # [Suc page..<Suc k]"
    using lt by (simp add: upt_conv_Cons)
  show ?case
    by (simp only: step rest up) simp
qed

lemma two_pages_serves:
  "serves two_pages (page_request example_config 100 j)
     (if j = 1 then replicate 100 alpha else if j = 2 then [beta] else [])"
  by (simp add: serves_def two_pages_def ok_response_def raise_for_status_def page_request_def
        projects_params_def)

lemma upt_1_3: "[1..<Suc 2] = [1, 2]"
  by (simp add: upt_conv_Cons)

text \<open>
  C1. Let the source serve the pages \<open>pgs 1\<close>, \<open>pgs 2\<close>, ..., and let page \<open>k\<close> be the
  first with fewer than 100 items (an empty page included). Then
  \<^verbatim>\<open>list_all_gitlab_projects\<close> returns; it has sent exactly the \<open>k\<close> requests for the
  pages 1 to \<open>k\<close>, in this order, each with page size 100, ordered by \<^verbatim>\<open>id\<close>, ascending
  (\<open>page_request\<close>); and it returns the items of the pages 1 to \<open>k\<close>, concatenated in the
  order received.
\<close>

theorem list_all_gitlab_projects_pagination:
  assumes "1 \<le> k"
    and "\<forall>j. 1 \<le> j \<and> j \<le> k \<longrightarrow> serves gitlab (page_request cfg 100 j) (pgs j)"
    and "\<forall>j. 1 \<le> j \<and> j < k \<longrightarrow> 100 \<le> length (pgs j)"
    and "length (pgs k) < 100"
  shows "list_all_gitlab_projects cfg gitlab
         = Some (map (\<lambda>j. HttpGet (page_request cfg 100 j)) [1..<Suc k],
                 Inr (concat (map pgs [1..<Suc k])))"
  unfolding list_all_gitlab_projects_def
  using list_loop_pages [of 100 1 k gitlab cfg pgs "[]" "[]"] assms
  by simp

text \<open>A full first page of 100 items and a second page of one item: two requests.\<close>

theorem list_all_gitlab_projects_pagination_witness:
  "list_all_gitlab_projects example_config two_pages
   = Some ([HttpGet (page_request example_config 100 1), HttpGet (page_request example_config 100 2)],
           Inr (replicate 100 alpha @ [beta]))"
proof -
  let ?pgs = "\<lambda>j::nat. if j = 1 then replicate 100 alpha else if j = 2 then [beta] else []"
  have "list_all_gitlab_projects example_config two_pages
         = Some (map (\<lambda>j. HttpGet (page_request example_config 100 j)) [1..<Suc 2],
                 Inr (concat (map ?pgs [1..<Suc 2])))"
  proof (rule list_all_gitlab_projects_pagination)
    show "1 \<le> (2::nat)" by simp
    show "\<forall>j. 1 \<le> j \<and> j \<le> 2 \<longrightarrow> serves two_pages (page_request example_config 100 j) (?pgs j)"
      using two_pages_serves by simp
    show "\<forall>j. 1 \<le> j \<and> j < 2 \<longrightarrow> 100 \<le> length (?pgs j)"
      by auto
    show "length (?pgs 2) < 100" by simp
  qed
  then show ?thesis
    by (simp only: upt_1_3) simp
qed

lemma count_list_concat:
  "count_list (concat xss) x = sum_list (map (\<lambda>xs. count_list xs x) xss)"
  by (induction xss) simp_all

text \<open>
  C6, as the code has it. The function removes nothing: under the conditions of C1 a
  descriptor stands in the returned list as many times as it stands in the pages 1 to \<open>k\<close>
  together, so the returned list is free of duplicates exactly when these pages are.
\<close>

theorem list_all_gitlab_projects_multiplicity:
  assumes "1 \<le> k"
    and "\<forall>j. 1 \<le> j \<and> j \<le> k \<longrightarrow> serves gitlab (page_request cfg 100 j) (pgs j)"
    and "\<forall>j. 1 \<le> j \<and> j < k \<longrightarrow> 100 \<le> length (pgs j)"
    and "length (pgs k) < 100"
  shows "\<exists>log projects.
           list_all_gitlab_projects cfg gitlab = Some (log, Inr projects)
           \<and> (\<forall>x. count_list projects x = sum_list (map (\<lambda>j. count_list (pgs j) x) [1..<Suc k]))
           \<and> distinct projects = distinct (concat (map pgs [1..<Suc k]))"
proof -
  have "list_all_gitlab_projects cfg gitlab
         = Some (map (\<lambda>j. HttpGet (page_request cfg 100 j)) [1..<Suc k],
                 Inr (concat (map pgs [1..<Suc k])))"
    unfolding list_all_gitlab_projects_def
    using list_loop_pages [of 100 1 k gitlab cfg pgs "[]" "[]"] assms
    by simp
  then show ?thesis
    by (simp add: count_list_concat comp_def)
qed

lemma count_list_replicate: "count_list (replicate n x) y = (if x = y then n else 0)"
  by (induction n) auto

text \<open>On the two pages above \<open>alpha\<close> is served 100 times and returned 100 times.\<close>

theorem list_all_gitlab_projects_multiplicity_witness:
  "\<exists>log projects.
     list_all_gitlab_projects example_config two_pages = Some (log, Inr projects)
     \<and> count_list projects alpha = 100 \<and> \<not> distinct projects"
proof -
  let ?pgs = "\<lambda>j::nat. if j = 1 then replicate 100 alpha else if j = 2 then [beta] else []"
  have ab: "alpha \<noteq> beta"
    by (simp add: alpha_def beta_def project_def)
  have "\<exists>log projects.
           list_all_gitlab_projects example_config two_pages = Some (log, Inr projects)
           \<and> (\<forall>x. count_list projects x = sum_list (map (\<lambda>j. count_list (?pgs j) x) [1..<Suc 2]))
           \<and> distinct projects = distinct (concat (map ?pgs [1..<Suc 2]))"
  proof (rule list_all_gitlab_projects_multiplicity)
    show "1 \<le> (2::nat)" by simp
    show "\<forall>j. 1 \<le> j \<and> j \<le> 2 \<longrightarrow> serves two_pages (page_request example_config 100 j) (?pgs j)"
      using two_pages_serves by simp
    show "\<forall>j. 1 \<le> j \<and> j < 2 \<longrightarrow> 100 \<le> length (?pgs j)"
      by auto
    show "length (?pgs 2) < 100" by simp
  qed
  then obtain log projects where
    r: "list_all_gitlab_projects example_config two_pages = Some (log, Inr projects)"
    and c: "count_list projects alpha = sum_list (map (\<lambda>j. count_list (?pgs j) alpha) [1..<Suc 2])"
    and d: "distinct projects = distinct (concat (map ?pgs [1..<Suc 2]))"
    by blast
  have r100: "replicate 100 alpha = alpha # alpha # replicate 98 alpha"
    by (simp add: replicate_Suc [symmetric] del: replicate_Suc)
  from c ab have "count_list projects alpha = 100"
    by (simp only: upt_1_3) (simp add: count_list_replicate)
  moreover from d have "\<not> distinct projects"
    by (simp only: upt_1_3) (simp add: r100)
  ultimately show ?thesis using r by blast
qed

text \<open>
  C6 as stated fails: a source that serves the same descriptor twice on one page of two
  items gets both back.
\<close>

theorem list_all_gitlab_projects_duplicate:
  "list_all_gitlab_projects example_config same_twice
   = Some ([HttpGet (page_request example_config 100 1)], Inr [alpha, alpha])
   \<and> \<not> distinct [alpha, alpha]"
proof -
  have "serves same_twice (page_request example_config 100 1) [alpha, alpha]"
    by (simp add: serves_def same_twice_def ok_response_def raise_for_status_def)
  then have "list_loop example_config same_twice 100 [] 1 []
         = Some ([] @ [HttpGet (page_request example_config 100 1)], Inr ([] @ [alpha, alpha]))"
    by (rule list_loop_last) simp
  then show ?thesis
    by (simp add: list_all_gitlab_projects_def)
qed

section \<open>Configuration and paths\<close>

lemma rstrip_only: "set s \<subseteq> {c} \<Longrightarrow> rstrip c s = []"
  by (auto simp: rstrip_def dropWhile_eq_Nil_conv)

text \<open>
  C8. When \<^verbatim>\<open>GITLAB_URL\<close> is absent, empty or made of slashes only, whatever the other
  variables are, the script prints the message of line 14 and exits with status 1, and does
  nothing else: no directory is made and no request is sent.
\<close>

theorem slashes_only_gitlab_url_is_missing:
  assumes "case environ ''GITLAB_URL'' of None \<Rightarrow> True | Some s \<Rightarrow> set s \<subseteq> {CHR ''/''}"
  shows "script environ gitlab world
         = Some ([Print [Lit ''Missing one of GITLAB_URL, GITLAB_TOKEN, GITHUB_ORG, GITHUB_TOKEN env vars'']], 1)"
proof -
  have "rstrip CHR ''/'' (environ_get environ ''GITLAB_URL'' []) = []"
    using assms by (auto simp: environ_get_def rstrip_only split: option.splits)
  then have "load_config environ = None"
    by (simp add: load_config_def str_truthy_def)
  then show ?thesis
    by (simp add: script_def)
qed

text \<open>The example environment with \<^verbatim>\<open>GITLAB_URL\<close> set to three slashes.\<close>

theorem slashes_only_gitlab_url_is_missing_witness:
  "script (example_environ(''GITLAB_URL'' \<mapsto> ''///'')) three_projects world_b_fails
   = Some ([Print [Lit ''Missing one of GITLAB_URL, GITLAB_TOKEN, GITHUB_ORG, GITHUB_TOKEN env vars'']], 1)"
  by (rule slashes_only_gitlab_url_is_missing) simp


lemma unflatten_flat:
  "separable s \<Longrightarrow> unflatten (str_replace CHR ''/'' ''__'' s) = s"
  by (induction s rule: separable.induct) (auto simp: str_replace_def)

lemma no_slash_flat: "CHR ''/'' \<notin> set (str_replace CHR ''/'' ''__'' s)"
  by (induction s) (auto simp: str_replace_def)

lemma no_slash_name: "CHR ''/'' \<notin> set (local_dir_name s)"
  using no_slash_flat by (simp add: local_dir_name_def)

lemma path_join_name:
  "path_join a (local_dir_name s)
   = (if a = [] \<or> suffix ''/'' a then a else a @ ''/'') @ local_dir_name s"
proof -
  have "\<not> prefix ''/'' (local_dir_name s)"
    using no_slash_name [of s] by (auto simp: prefix_def)
  then show ?thesis by (simp add: path_join_def)
qed

text \<open>
  C5, as the code has it. The directory name of a full path is a function of the path and
  contains no separator. Two full paths in which no underscore stands next to another
  underscore or to a separator have the same mirror directory only when they are equal.
\<close>

theorem local_dir_name_flat_injective:
  "CHR ''/'' \<notin> set (local_dir_name p)
   \<and> (separable p \<and> separable q \<and> local_dir_of cfg p = local_dir_of cfg q \<longrightarrow> p = q)"
proof -
  have "p = q" if sp: "separable p" and sq: "separable q"
    and eq: "local_dir_of cfg p = local_dir_of cfg q"
  proof -
    from eq have "local_dir_name p = local_dir_name q"
      by (simp add: local_dir_of_def path_join_name)
    then have "str_replace CHR ''/'' ''__'' p = str_replace CHR ''/'' ''__'' q"
      by (simp add: local_dir_name_def)
    then have "unflatten (str_replace CHR ''/'' ''__'' p) = unflatten (str_replace CHR ''/'' ''__'' q)"
      by simp
    with sp sq show ?thesis by (simp add: unflatten_flat)
  qed
  then show ?thesis using no_slash_name by blast
qed

text \<open>The path of the specification, and a second one that differs from it.\<close>

theorem local_dir_name_flat_injective_witness:
  "CHR ''/'' \<notin> set (local_dir_name ''group/sub/project'')
   \<and> local_dir_name ''group/sub/project'' = ''group__sub__project.git''
   \<and> local_dir_of example_config ''group/sub/project'' \<noteq> local_dir_of example_config ''group/sub_project''"
proof -
  have "separable ''group/sub/project''" "separable ''group/sub_project''"
    by simp_all
  then show ?thesis
    using local_dir_name_flat_injective [of "''group/sub/project''" "''group/sub_project''" example_config]
    by (auto simp: local_dir_name_def str_replace_def)
qed

text \<open>
  C5 as stated fails: the project \<^verbatim>\<open>b\<close> of the subgroup \<^verbatim>\<open>g/a\<close> and the project
  \<^verbatim>\<open>a__b\<close> of the group \<^verbatim>\<open>g\<close> get the same directory name.
\<close>

theorem local_dir_name_collision:
  "local_dir_name ''g/a/b'' = local_dir_name ''g/a__b'' \<and> ''g/a/b'' \<noteq> ''g/a__b''"
  by (simp add: local_dir_name_def str_replace_def)

section \<open>Creating the destination repository\<close>

lemma create_github_repo_conflict_parts:
  "name_conflict r \<Longrightarrow>
   snd (create_github_repo cfg (Inr r) name description private)
   = Inr [Lit ''https://github.com/'', Lit (GITHUB_ORG cfg), Lit ''/'', Sub name, Lit ''.git'']"
  by (simp add: create_github_repo_def name_conflict_def Let_def)

lemma returned_url_conflict:
  "name_conflict r \<Longrightarrow>
   returned_url cfg (Inr r) (JStr name) description private = Some (repo_clone_url cfg name)"
  by (simp add: returned_url_def create_github_repo_conflict_parts repo_clone_url_def)

lemma returned_url_creates:
  assumes "creates r url" and "\<not> name_conflict r"
  shows "returned_url cfg (Inr r) name description private = Some url"
  using assms
  by (auto simp: returned_url_def create_github_repo_def name_conflict_def creates_def Let_def
        response_json_def split: option.splits json.splits)

lemma create_github_repo_http_error:
  assumes "\<not> name_conflict r" and "400 \<le> status_code r" and "status_code r < 600"
  shows "snd (create_github_repo cfg (Inr r) name description private)
         = Inl (HTTPError (status_code r))"
  using assms
  by (auto simp: create_github_repo_def name_conflict_def raise_for_status_def Let_def)

text \<open>
  C2, as the code has it. On a 422 response whose body contains
  \<^verbatim>\<open>name already exists\<close>, \<^verbatim>\<open>create_github_repo\<close> raises nothing and returns the URL
  that line 73 builds from the organisation and the name. Two calls with the same name, the
  second answered with such a name conflict, return the same URL when the first is answered
  with a name conflict too, or with a success that reports exactly the URL of line 73. Every
  other response with a status from 400 to 599 raises the HTTP error of its status.
\<close>

theorem create_github_repo_reuses_on_conflict:
  "(name_conflict r \<longrightarrow>
      snd (create_github_repo cfg (Inr r) name description private)
      = Inr [Lit ''https://github.com/'', Lit (GITHUB_ORG cfg), Lit ''/'', Sub name, Lit ''.git''])
   \<and> (name_conflict r2 \<and> (name_conflict r1 \<or> creates r1 (repo_clone_url cfg n)) \<longrightarrow>
        returned_url cfg (Inr r1) (JStr n) d1 private1 = Some (repo_clone_url cfg n)
        \<and> returned_url cfg (Inr r2) (JStr n) d2 private2 = Some (repo_clone_url cfg n))
   \<and> (\<not> name_conflict r \<and> 400 \<le> status_code r \<and> status_code r < 600 \<longrightarrow>
        snd (create_github_repo cfg (Inr r) name description private)
        = Inl (HTTPError (status_code r)))"
proof (intro conjI impI)
  assume "name_conflict r"
  then show "snd (create_github_repo cfg (Inr r) name description private)
      = Inr [Lit ''https://github.com/'', Lit (GITHUB_ORG cfg), Lit ''/'', Sub name, Lit ''.git'']"
    by (rule create_github_repo_conflict_parts)
next
  assume a: "name_conflict r2 \<and> (name_conflict r1 \<or> creates r1 (repo_clone_url cfg n))"
  then show "returned_url cfg (Inr r1) (JStr n) d1 private1 = Some (repo_clone_url cfg n)"
    using returned_url_conflict returned_url_creates by blast
  from a show "returned_url cfg (Inr r2) (JStr n) d2 private2 = Some (repo_clone_url cfg n)"
    by (simp add: returned_url_conflict)
next
  assume "\<not> name_conflict r \<and> 400 \<le> status_code r \<and> status_code r < 600"
  then show "snd (create_github_repo cfg (Inr r) name description private)
        = Inl (HTTPError (status_code r))"
    by (simp add: create_github_repo_http_error)
qed

lemma conflict_is_conflict: "name_conflict conflict"
  by (simp add: name_conflict_def conflict_def sublist_code)

text \<open>
  A first call that creates \<^verbatim>\<open>acme/tool\<close> and a second one that meets the conflict, and a
  call answered with status 500.
\<close>

theorem create_github_repo_reuses_on_conflict_witness:
  "snd (create_github_repo example_config (Inr conflict) (JStr ''tool'') JNull True)
   = Inr [Lit ''https://github.com/'', Lit ''acme'', Lit ''/'', Sub (JStr ''tool''), Lit ''.git'']
   \<and> returned_url example_config (Inr (created ''https://github.com/acme/tool.git'')) (JStr ''tool'') JNull True
     = Some ''https://github.com/acme/tool.git''
   \<and> returned_url example_config (Inr conflict) (JStr ''tool'') JNull True
     = Some ''https://github.com/acme/tool.git''
   \<and> snd (create_github_repo example_config (Inr server_error) (JStr ''tool'') JNull True)
     = Inl (HTTPError 500)"
proof -
  have c: "creates (created ''https://github.com/acme/tool.git'') (repo_clone_url example_config ''tool'')"
    by (simp add: creates_def created_def raise_for_status_def dict_lookup_def repo_clone_url_def
          example_config_def)
  have e: "\<not> name_conflict server_error \<and> 400 \<le> status_code server_error \<and> status_code server_error < 600"
    by (simp add: name_conflict_def server_error_def)
  show ?thesis
    using create_github_repo_reuses_on_conflict
      [of conflict example_config "JStr ''tool''" JNull True conflict
          "created ''https://github.com/acme/tool.git''" "''tool''" JNull True JNull True]
      create_github_repo_reuses_on_conflict
      [of server_error example_config "JStr ''tool''" JNull True conflict
          "created ''https://github.com/acme/tool.git''" "''tool''" JNull True JNull True]
      conflict_is_conflict c e
    by (simp add: repo_clone_url_def example_config_def server_error_def)
qed

text \<open>
  C2 as stated fails twice. The first call returns the URL that GitHub reports, here with the
  organisation in its registered spelling \<^verbatim>\<open>Acme\<close>, and the second call the URL built from
  the configured \<^verbatim>\<open>acme\<close>: two different texts. And a response that is no success and has
  no status from 400 to 599, here a 302, raises nothing: the call returns what the body
  holds.
\<close>

theorem create_github_repo_urls_differ:
  "returned_url example_config (Inr (created ''https://github.com/Acme/tool.git'')) (JStr ''tool'') JNull True
     = Some ''https://github.com/Acme/tool.git''
   \<and> returned_url example_config (Inr conflict) (JStr ''tool'') JNull True
     = Some ''https://github.com/acme/tool.git''
   \<and> snd (create_github_repo example_config (Inr (moved ''https://github.com/acme/tool.git''))
            (JStr ''tool'') JNull True)
     = Inr [Sub (JStr ''https://github.com/acme/tool.git'')]"
  by (simp add: returned_url_def create_github_repo_def created_def conflict_def moved_def
        example_config_def raise_for_status_def response_json_def dict_lookup_def Let_def
        sublist_code)

section \<open>One project\<close>

lemma run_sleep: "filter is_sleep (fst (run rc cmd cwd)) = []"
  by (simp add: run_def)

lemma run_post: "filter is_post (fst (run rc cmd cwd)) = []"
  by (simp add: run_def)

lemma push_mirror_outcome:
  "snd (push_mirror a fp ld u)
   = (if remote_add_status a \<noteq> 0 then Skipped RemoteAddError
      else if push_status a \<noteq> 0 then Skipped PushError else Completed)"
  by (simp add: push_mirror_def run_def Let_def)

lemma push_mirror_sleep:
  "filter is_sleep (fst (push_mirror a fp ld u))
   = (if snd (push_mirror a fp ld u) = Completed then [Sleep 1] else [])"
  by (simp add: push_mirror_def run_def Let_def)

lemma push_mirror_last:
  "snd (push_mirror a fp ld u) = Completed \<Longrightarrow> last (fst (push_mirror a fp ld u)) = Sleep 1"
  by (simp add: push_mirror_def run_def Let_def split: if_splits)

lemma push_mirror_post: "filter is_post (fst (push_mirror a fp ld u)) = []"
  by (simp add: push_mirror_def run_def Let_def)

lemma push_mirror_nonempty: "fst (push_mirror a fp ld u) \<noteq> []"
  by (simp add: push_mirror_def run_def Let_def)

lemma create_github_repo_ok:
  "(\<exists>u. snd (create_github_repo cfg reply n d prv) = Inr u) = reply_ok reply"
  by (cases reply)
     (auto simp: create_github_repo_def reply_ok_def name_conflict_def Let_def response_json_def
        raise_for_status_def
        split: option.splits json.splits sum.splits if_splits)

lemma create_github_repo_sleep:
  "filter is_sleep (fst (create_github_repo cfg reply n d prv)) = []"
  by (cases reply)
     (auto simp: create_github_repo_def Let_def split: option.splits sum.splits)

lemma create_github_repo_posts:
  "filter is_post (fst (create_github_repo cfg reply n d prv))
   = [HttpPost \<lparr>post_url = ''https://api.github.com/orgs/'' @ GITHUB_ORG cfg @ ''/repos'',
                 post_headers = [(''Authorization'', ''token '' @ GITHUB_TOKEN cfg),
                                 (''Accept'', ''application/vnd.github+json'')],
                 post_json = \<lparr>p_name = n, p_description = d, p_private = prv,
                               p_auto_init = False\<rparr>\<rparr>]"
  by (cases reply)
     (auto simp: create_github_repo_def Let_def split: option.splits sum.splits)

lemma not_public:
  "(\<not> py_truthy (dict_get kvs ''public'' (JBool False)))
   = (case dict_lookup kvs ''public'' of None \<Rightarrow> True | Some v \<Rightarrow> \<not> py_truthy v)"
  by (simp add: dict_get_def split: option.splits)

lemma create_and_push_facts:
  "snd (create_and_push cfg (JObj kvs) a fp pn ld) = after_sync a
   \<and> filter is_sleep (fst (create_and_push cfg (JObj kvs) a fp pn ld))
       = (if after_sync a = Completed then [Sleep 1] else [])
   \<and> (after_sync a = Completed \<longrightarrow> last (fst (create_and_push cfg (JObj kvs) a fp pn ld)) = Sleep 1)
   \<and> filter is_post (fst (create_and_push cfg (JObj kvs) a fp pn ld))
       = [HttpPost (creation_request cfg kvs fp pn)]"
proof -
  let ?d = "py_or (dict_get kvs ''description'' JNull)
              (JStr (''Mirror of '' @ fp @ '' from '' @ GITLAB_URL cfg))"
  let ?prv = "\<not> py_truthy (dict_get kvs ''public'' (JBool False))"
  let ?c = "create_github_repo cfg (github_reply a) pn ?d ?prv"
  obtain es res where c: "?c = (es, res)"
    by (cases ?c)
  have ok: "(\<exists>u. res = Inr u) = reply_ok (github_reply a)"
    using create_github_repo_ok [of cfg "github_reply a" pn ?d ?prv] c by simp
  have sl: "filter is_sleep es = []"
    using create_github_repo_sleep [of cfg "github_reply a" pn ?d ?prv] c by simp
  have po: "filter is_post es = [HttpPost (creation_request cfg kvs fp pn)]"
    using create_github_repo_posts [of cfg "github_reply a" pn ?d ?prv] c
    by (simp add: creation_request_def not_public)
  show ?thesis
  proof (cases res)
    case (Inl e)
    with ok have "\<not> reply_ok (github_reply a)" by auto
    then have "after_sync a = Skipped CreateError"
      by (simp add: after_sync_def)
    with Inl c sl po show ?thesis
      by (simp add: create_and_push_def Let_def)
  next
    case (Inr u)
    with ok have r: "reply_ok (github_reply a)" by auto
    obtain es' out where pm: "push_mirror a (JStr fp) ld u = (es', out)"
      by (cases "push_mirror a (JStr fp) ld u")
    have out: "out = after_sync a"
      using push_mirror_outcome [of a "JStr fp" ld u] pm r by (simp add: after_sync_def)
    have sl': "filter is_sleep es' = (if out = Completed then [Sleep 1] else [])"
      using push_mirror_sleep [of a "JStr fp" ld u] pm by simp
    have la: "out = Completed \<longrightarrow> last es' = Sleep 1"
      using push_mirror_last [of a "JStr fp" ld u] pm by simp
    have ne: "es' \<noteq> []"
      using push_mirror_nonempty [of a "JStr fp" ld u] pm by simp
    have po': "filter is_post es' = []"
      using push_mirror_post [of a "JStr fp" ld u] pm by simp
    from Inr c pm out sl sl' la ne po po' show ?thesis
      by (simp add: create_and_push_def Let_def)
  qed
qed

lemma sync_project_facts:
  "snd (sync_project cfg (JObj kvs) a (JStr fp) pn url) = expected_outcome False a
   \<and> filter is_sleep (fst (sync_project cfg (JObj kvs) a (JStr fp) pn url))
       = (if expected_outcome False a = Completed then [Sleep 1] else [])
   \<and> (expected_outcome False a = Completed
        \<longrightarrow> last (fst (sync_project cfg (JObj kvs) a (JStr fp) pn url)) = Sleep 1)
   \<and> filter is_post (fst (sync_project cfg (JObj kvs) a (JStr fp) pn url))
       = (if sync_succeeds a then [HttpPost (creation_request cfg kvs fp pn)] else [])
   \<and> take 2 (fst (sync_project cfg (JObj kvs) a (JStr fp) pn url))
       = [Print [Lit [CHR 0x0A], Lit ''=== Processing '', Sub (JStr fp), Lit '' ===''],
          PathExists (local_dir_of cfg fp)]"
proof -
  let ?ld = "local_dir_of cfg fp"
  obtain es' out where cp: "create_and_push cfg (JObj kvs) a fp pn ?ld = (es', out)"
    by (cases "create_and_push cfg (JObj kvs) a fp pn ?ld")
  have f: "out = after_sync a"
      "filter is_sleep es' = (if after_sync a = Completed then [Sleep 1] else [])"
      "after_sync a = Completed \<longrightarrow> last es' = Sleep 1"
      "filter is_post es' = [HttpPost (creation_request cfg kvs fp pn)]"
    using create_and_push_facts [of cfg kvs a fp pn ?ld] cp by simp_all
  from f(4) have ne: "es' \<noteq> []" by auto
  show ?thesis
  proof (cases "dir_exists a")
    case True
    with cp f ne show ?thesis
      by (simp add: sync_project_def run_def Let_def expected_outcome_def sync_succeeds_def)
  next
    case False
    with cp f ne show ?thesis
      by (simp add: sync_project_def run_def Let_def expected_outcome_def sync_succeeds_def)
  qed
qed

lemma well_formedE:
  assumes "well_formed p"
  obtains kvs fp pn url where "p = JObj kvs"
    and "dict_lookup kvs ''path_with_namespace'' = Some (JStr fp)"
    and "dict_lookup kvs ''path'' = Some pn"
    and "dict_lookup kvs ''http_url_to_repo'' = Some url"
proof -
  from assms obtain kvs where p: "p = JObj kvs"
    by (cases p) (simp_all add: well_formed_def)
  from assms p obtain v where v: "dict_lookup kvs ''path_with_namespace'' = Some v"
    by (cases "dict_lookup kvs ''path_with_namespace''") (simp_all add: well_formed_def)
  from assms p v obtain fp where fp: "v = JStr fp"
    by (cases v) (simp_all add: well_formed_def)
  from assms p obtain pn url where "dict_lookup kvs ''path'' = Some pn"
    "dict_lookup kvs ''http_url_to_repo'' = Some url"
    by (auto simp: well_formed_def)
  with p v fp that show thesis by blast
qed

lemma process_project_obj:
  assumes "dict_lookup kvs ''path_with_namespace'' = Some full_path"
    and "dict_lookup kvs ''path'' = Some pn"
    and "dict_lookup kvs ''http_url_to_repo'' = Some url"
  shows "process_project cfg (JObj kvs) a
         = (if py_truthy (dict_get kvs ''archived'' JNull)
            then ([Print [Lit ''Skipping archived project '', Sub full_path]], Skipped Archived)
            else sync_project cfg (JObj kvs) a full_path pn url)"
  using assms by (simp add: process_project_def)

lemma process_project_facts:
  assumes "dict_lookup kvs ''path_with_namespace'' = Some (JStr fp)"
    and "dict_lookup kvs ''path'' = Some pn"
    and "dict_lookup kvs ''http_url_to_repo'' = Some url"
  shows "snd (process_project cfg (JObj kvs) a)
           = expected_outcome (py_truthy (dict_get kvs ''archived'' JNull)) a"
    and "filter is_sleep (fst (process_project cfg (JObj kvs) a))
           = (if snd (process_project cfg (JObj kvs) a) = Completed then [Sleep 1] else [])"
    and "snd (process_project cfg (JObj kvs) a) = Completed
           \<Longrightarrow> last (fst (process_project cfg (JObj kvs) a)) = Sleep 1"
    and "filter is_post (fst (process_project cfg (JObj kvs) a))
           = (if \<not> py_truthy (dict_get kvs ''archived'' JNull) \<and> sync_succeeds a
              then [HttpPost (creation_request cfg kvs fp pn)] else [])"
proof -
  note pp = process_project_obj [OF assms, of cfg a]
  note sf = sync_project_facts [of cfg kvs a fp pn url]
  show o: "snd (process_project cfg (JObj kvs) a)
           = expected_outcome (py_truthy (dict_get kvs ''archived'' JNull)) a"
    using sf by (simp add: pp) (simp add: expected_outcome_def)
  show "filter is_sleep (fst (process_project cfg (JObj kvs) a))
           = (if snd (process_project cfg (JObj kvs) a) = Completed then [Sleep 1] else [])"
    using sf by (simp add: pp)
  show "last (fst (process_project cfg (JObj kvs) a)) = Sleep 1"
    if "snd (process_project cfg (JObj kvs) a) = Completed"
    using sf that by (simp add: pp split: if_splits)
  show "filter is_post (fst (process_project cfg (JObj kvs) a))
           = (if \<not> py_truthy (dict_get kvs ''archived'' JNull) \<and> sync_succeeds a
              then [HttpPost (creation_request cfg kvs fp pn)] else [])"
    using sf by (simp add: pp)
qed


lemma expected_outcome_completed:
  "(expected_outcome b a = Completed) = (\<not> b \<and> steps_succeed a)"
  by (auto simp: expected_outcome_def after_sync_def steps_succeed_def)

lemma expected_outcome_archived:
  "(expected_outcome b a = Skipped Archived) = b"
  by (auto simp: expected_outcome_def after_sync_def)



lemma is_archived_obj: "is_archived (JObj kvs) = py_truthy (dict_get kvs ''archived'' JNull)"
  by (simp add: is_archived_def)

lemma process_project_outcome:
  assumes "well_formed p"
  shows "snd (process_project cfg p a) = expected_outcome (is_archived p) a"
  using assms
  by (elim well_formedE) (simp add: process_project_facts(1) is_archived_obj)





lemma filter_single_mem:
  assumes "filter P es = [x]"
  shows "x \<in> set es"
proof -
  from assms have "x \<in> set (filter P es)" by simp
  then show ?thesis by simp
qed

lemma process_project_posts:
  assumes "HttpPost req \<in> set (fst (process_project cfg p a))"
  shows "\<exists>kvs fp pn. p = JObj kvs \<and> req = creation_request cfg kvs fp pn"
proof (cases p)
  case (JObj kvs)
  show ?thesis
  proof (cases "dict_lookup kvs ''path_with_namespace''")
    case None
    with JObj assms show ?thesis by (simp add: process_project_def)
  next
    case full: (Some full_path)
    show ?thesis
    proof (cases "dict_lookup kvs ''path''")
      case None
      with JObj full assms show ?thesis by (simp add: process_project_def)
    next
      case leaf: (Some pn)
      show ?thesis
      proof (cases "dict_lookup kvs ''http_url_to_repo''")
        case None
        with JObj full leaf assms show ?thesis by (simp add: process_project_def)
      next
        case (Some url)
        note pp = process_project_obj [OF full leaf Some, of cfg a]
        show ?thesis
        proof (cases "\<exists>fp. full_path = JStr fp")
          case True
          then obtain fp where fp: "full_path = JStr fp" by blast
          from assms JObj have "HttpPost req \<in> set (filter is_post (fst (process_project cfg (JObj kvs) a)))"
            by simp
          then have "req = creation_request cfg kvs fp pn"
            using process_project_facts(4) [OF full [unfolded fp] leaf Some, of cfg a]
            by (simp split: if_splits)
          with JObj show ?thesis by blast
        next
          case False
          then have "sync_project cfg (JObj kvs) a full_path pn url
                     = ([Print [Lit [CHR 0x0A], Lit ''=== Processing '', Sub full_path,
                                Lit '' ==='']], Raised AttributeError)"
            by (cases full_path) (simp_all add: sync_project_def)
          with assms JObj pp show ?thesis
            by (simp split: if_splits)
        qed
      qed
    qed
  qed
qed (use assms in \<open>simp_all add: process_project_def\<close>)

section \<open>The examples\<close>



lemma well_formed_examples:
  "well_formed alpha" "well_formed beta" "well_formed gamma" "well_formed delta"
  by (simp_all add: well_formed_def project_def dict_lookup_def alpha_def beta_def gamma_def
        delta_def)

lemma archived_examples:
  "\<not> is_archived alpha" "is_archived beta" "\<not> is_archived gamma" "\<not> is_archived delta"
  by (simp_all add: is_archived_def project_def dict_lookup_def dict_get_def alpha_def beta_def
        gamma_def delta_def)

lemma all_fine_outcome: "expected_outcome False (all_fine url) = Completed"
  by (simp add: expected_outcome_def after_sync_def all_fine_def reply_ok_def created_def
        name_conflict_def raise_for_status_def dict_lookup_def)

lemma create_fails_outcome: "expected_outcome False create_fails = Skipped CreateError"
  by (simp add: expected_outcome_def after_sync_def create_fails_def reply_ok_def
        server_error_def name_conflict_def raise_for_status_def)

lemma all_fine_succeed: "steps_succeed (all_fine url)"
  by (simp add: steps_succeed_def all_fine_def reply_ok_def created_def
        name_conflict_def raise_for_status_def dict_lookup_def)

section \<open>The run\<close>




text \<open>
  C4. For a descriptor that has the three keys the loop reads first and whose
  \<^verbatim>\<open>archived\<close> is true, the iteration does one thing, whatever the world would reply:
  it prints that it skips the archived project. It checks no path, makes no directory, runs
  no command and sends no request.
\<close>

theorem archived_project_untouched:
  assumes "subscript p ''path_with_namespace'' = Inr full_path"
    and "subscript p ''path'' = Inr proj_name"
    and "subscript p ''http_url_to_repo'' = Inr http_url"
    and "py_get p ''archived'' JNull = Inr (JBool True)"
  shows "process_project cfg p a
         = ([Print [Lit ''Skipping archived project '', Sub full_path]], Skipped Archived)"
  using assms by (simp add: process_project_def)

theorem archived_project_untouched_witness:
  "process_project example_config beta (all_fine ''https://github.com/acme/beta.git'')
   = ([Print [Lit ''Skipping archived project '', Sub (JStr ''team/beta'')]], Skipped Archived)"
  by (rule archived_project_untouched)
     (simp_all add: beta_def project_def dict_lookup_def dict_get_def)

text \<open>
  C10. Let \<open>v\<close> be what \<^verbatim>\<open>p.get("archived")\<close> gives for a well-formed descriptor
  (\<^verbatim>\<open>None\<close> when the key is missing). The project is skipped as archived exactly when
  \<open>v\<close> is truthy. When \<open>v\<close> is falsy the iteration goes on: it announces the project
  and looks for the mirror directory, and it runs the workflow to its end (clone or fetch,
  creation, remote, push, pause) exactly when every step succeeds.
\<close>

theorem archived_skip_iff_truthy:
  assumes "well_formed p" and "py_get p ''archived'' JNull = Inr v"
  shows "(snd (process_project cfg p a) = Skipped Archived) = py_truthy v
         \<and> (\<not> py_truthy v \<longrightarrow>
              (snd (process_project cfg p a) = Completed) = steps_succeed a
              \<and> (\<exists>fp. subscript p ''path_with_namespace'' = Inr (JStr fp)
                   \<and> take 2 (fst (process_project cfg p a))
                     = [Print [Lit [CHR 0x0A], Lit ''=== Processing '', Sub (JStr fp),
                               Lit '' ===''],
                        PathExists (local_dir_of cfg fp)]))"
proof -
  from assms(1) obtain kvs fp pn url where p: "p = JObj kvs"
    and l: "dict_lookup kvs ''path_with_namespace'' = Some (JStr fp)"
      "dict_lookup kvs ''path'' = Some pn" "dict_lookup kvs ''http_url_to_repo'' = Some url"
    by (rule well_formedE)
  from assms(2) p have v: "dict_get kvs ''archived'' JNull = v" by simp
  have o: "snd (process_project cfg p a) = expected_outcome (py_truthy v) a"
    using process_project_facts(1) [OF l, of cfg a] p v by simp
  have t: "take 2 (fst (process_project cfg p a))
           = [Print [Lit [CHR 0x0A], Lit ''=== Processing '', Sub (JStr fp), Lit '' ===''],
              PathExists (local_dir_of cfg fp)]" if "\<not> py_truthy v"
    using sync_project_facts [of cfg kvs a fp pn url] that p v
    by (simp add: process_project_obj [OF l])
  from l(1) p have s: "subscript p ''path_with_namespace'' = Inr (JStr fp)" by simp
  show ?thesis
    using o t s by (simp add: expected_outcome_archived expected_outcome_completed)
qed

text \<open>A descriptor without the key, and one whose \<^verbatim>\<open>archived\<close> is false.\<close>

theorem archived_skip_iff_truthy_witness:
  "py_get gamma ''archived'' JNull = Inr JNull
   \<and> snd (process_project example_config gamma (all_fine ''https://github.com/acme/gamma.git''))
     = Completed
   \<and> py_get alpha ''archived'' JNull = Inr (JBool False)
   \<and> snd (process_project example_config alpha create_fails) \<noteq> Skipped Archived"
proof -
  have g: "py_get gamma ''archived'' JNull = Inr JNull"
    by (simp add: gamma_def project_def dict_get_def dict_lookup_def)
  have a: "py_get alpha ''archived'' JNull = Inr (JBool False)"
    by (simp add: alpha_def project_def dict_get_def dict_lookup_def)
  show ?thesis
    using archived_skip_iff_truthy [OF well_formed_examples(3) g, of example_config
            "all_fine ''https://github.com/acme/gamma.git''"]
      archived_skip_iff_truthy [OF well_formed_examples(1) a, of example_config create_fails]
      g a all_fine_succeed
    by simp
qed

text \<open>
  C7, as the code has it. The pause of line 138 is the last statement of the loop body, and
  every \<^verbatim>\<open>continue\<close> passes it by: an iteration over a well-formed descriptor pauses
  exactly when the project completes, then once, for one second, as the last thing it does.
  After a skipped project the next iteration starts without a pause.
\<close>

theorem sleep_only_after_completion:
  assumes "well_formed p"
  shows "filter is_sleep (fst (process_project cfg p a))
         = (if snd (process_project cfg p a) = Completed then [Sleep 1] else [])
       \<and> (snd (process_project cfg p a) = Completed
            \<longrightarrow> last (fst (process_project cfg p a)) = Sleep 1)"
  using assms
  by (elim well_formedE) (simp add: process_project_facts(2,3))

text \<open>A project that completes, and one whose creation request fails.\<close>

theorem sleep_only_after_completion_witness:
  "filter is_sleep (fst (process_project example_config alpha
                           (all_fine ''https://github.com/acme/alpha.git'')))
   = [Sleep 1]
   \<and> last (fst (process_project example_config alpha
                   (all_fine ''https://github.com/acme/alpha.git''))) = Sleep 1
   \<and> filter is_sleep (fst (process_project example_config gamma create_fails)) = []"
proof -
  have "snd (process_project example_config alpha (all_fine ''https://github.com/acme/alpha.git''))
        = Completed"
    by (simp add: process_project_outcome well_formed_examples archived_examples
          all_fine_outcome)
  moreover have "snd (process_project example_config gamma create_fails) = Skipped CreateError"
    by (simp add: process_project_outcome well_formed_examples archived_examples
          create_fails_outcome)
  ultimately show ?thesis
    using sleep_only_after_completion [OF well_formed_examples(1), of example_config
            "all_fine ''https://github.com/acme/alpha.git''"]
      sleep_only_after_completion [OF well_formed_examples(3), of example_config create_fails]
    by simp
qed

text \<open>
  C7 as stated fails: the creation request for \<open>gamma\<close> fails, and the next effect after
  the message of line 121 is the first one of the next project. No pause stands between the
  two, and none after the archived \<open>beta\<close>.
\<close>

theorem no_sleep_after_skip:
  "main_loop example_config [(gamma, create_fails), (beta, create_fails)]
   = ([Print [Lit [CHR 0x0A], Lit ''=== Processing '', Sub (JStr ''team/gamma''), Lit '' ===''],
       PathExists ''./gitlab-mirror/team__gamma.git'',
       Print [Lit ''Local mirror exists for '', Sub (JStr ''team/gamma''),
              Lit '', fetching updates''],
       Print [Lit [CHR 0x0A], Lit ''>> '', Lit ''git fetch --all --prune''],
       Subprocess [Lit ''git fetch --all --prune''] (Some ''./gitlab-mirror/team__gamma.git''),
       HttpPost \<lparr>post_url = ''https://api.github.com/orgs/acme/repos'',
                 post_headers = [(''Authorization'', ''token ghp''),
                                 (''Accept'', ''application/vnd.github+json'')],
                 post_json = \<lparr>p_name = JStr ''gamma'',
                               p_description =
                                 JStr ''Mirror of team/gamma from https://gitlab.example.com'',
                               p_private = True, p_auto_init = False\<rparr>\<rparr>,
       Print [Lit ''Failed to create GitHub repo for '', Sub (JStr ''team/gamma''), Lit '': '',
              SubErr (HTTPError 500)],
       Print [Lit ''Skipping archived project '', Sub (JStr ''team/beta'')]],
      None)"
  by (simp add: process_project_def sync_project_def create_and_push_def create_github_repo_def
        run_def gamma_def beta_def project_def create_fails_def server_error_def
        example_config_def dict_lookup_def dict_get_def py_or_def local_dir_of_def
        local_dir_name_def str_replace_def path_join_def raise_for_status_def Let_def
        sublist_code suffix_to_prefix)

text \<open>
  C9, as the code has it. Every creation request an iteration sends has its private flag set
  to the negation of the truth value of \<^verbatim>\<open>p.get("public", False)\<close>: the flag is true
  when the descriptor has no key \<^verbatim>\<open>public\<close> and when its value is falsy (false, null,
  0, an empty string, array or object), and false when the value is truthy, which
  \<^verbatim>\<open>true\<close> is and every other non-empty or non-zero value as well.
\<close>

theorem private_unless_public_truthy:
  assumes "HttpPost req \<in> set (fst (process_project cfg p a))"
  shows "p_private (post_json req)
         = (case subscript p ''public'' of Inl e \<Rightarrow> True | Inr v \<Rightarrow> \<not> py_truthy v)"
proof -
  obtain kvs fp pn where "p = JObj kvs" "req = creation_request cfg kvs fp pn"
    using process_project_posts [OF assms] by blast
  then show ?thesis
    by (simp add: creation_request_def split: option.splits)
qed

text \<open>
  The public \<open>alpha\<close> is created non-private, \<open>gamma\<close>, which has no such key,
  private.
\<close>

theorem private_unless_public_truthy_witness:
  "HttpPost \<lparr>post_url = ''https://api.github.com/orgs/acme/repos'',
             post_headers = [(''Authorization'', ''token ghp''),
                             (''Accept'', ''application/vnd.github+json'')],
             post_json = \<lparr>p_name = JStr ''alpha'',
                           p_description =
                             JStr ''Mirror of team/alpha from https://gitlab.example.com'',
                           p_private = False, p_auto_init = False\<rparr>\<rparr>
     \<in> set (fst (process_project example_config alpha
                     (all_fine ''https://github.com/acme/alpha.git'')))
   \<and> subscript alpha ''public'' = Inr (JBool True)
   \<and> HttpPost \<lparr>post_url = ''https://api.github.com/orgs/acme/repos'',
               post_headers = [(''Authorization'', ''token ghp''),
                               (''Accept'', ''application/vnd.github+json'')],
               post_json = \<lparr>p_name = JStr ''gamma'',
                             p_description =
                               JStr ''Mirror of team/gamma from https://gitlab.example.com'',
                             p_private = True, p_auto_init = False\<rparr>\<rparr>
     \<in> set (fst (process_project example_config gamma
                     (all_fine ''https://github.com/acme/gamma.git'')))
   \<and> subscript gamma ''public'' = Inl (KeyError ''public'')"
proof -
  let ?ra = "creation_request example_config
               [(''path_with_namespace'', JStr ''team/alpha''), (''path'', JStr ''alpha''),
                (''http_url_to_repo'', JStr ''https://gitlab.example.com/team/alpha.git''),
                (''archived'', JBool False), (''public'', JBool True)]
               ''team/alpha'' (JStr ''alpha'')"
  let ?rg = "creation_request example_config
               [(''path_with_namespace'', JStr ''team/gamma''), (''path'', JStr ''gamma''),
                (''http_url_to_repo'', JStr ''https://gitlab.example.com/team/gamma.git'')]
               ''team/gamma'' (JStr ''gamma'')"
  have fa: "filter is_post (fst (process_project example_config alpha
                     (all_fine ''https://github.com/acme/alpha.git''))) = [HttpPost ?ra]"
    unfolding alpha_def project_def
    by (subst process_project_facts(4) [where fp = "''team/alpha''" and pn = "JStr ''alpha''"])
       (simp_all add: dict_lookup_def dict_get_def sync_succeeds_def all_fine_def)
  have fg: "filter is_post (fst (process_project example_config gamma
                     (all_fine ''https://github.com/acme/gamma.git''))) = [HttpPost ?rg]"
    unfolding gamma_def project_def
    by (subst process_project_facts(4) [where fp = "''team/gamma''" and pn = "JStr ''gamma''"])
       (simp_all add: dict_lookup_def dict_get_def sync_succeeds_def all_fine_def)
  have ma: "HttpPost ?ra \<in> set (fst (process_project example_config alpha
                     (all_fine ''https://github.com/acme/alpha.git'')))"
    using fa by (rule filter_single_mem)
  have mg: "HttpPost ?rg \<in> set (fst (process_project example_config gamma
                     (all_fine ''https://github.com/acme/gamma.git'')))"
    using fg by (rule filter_single_mem)
  show ?thesis
    using ma mg private_unless_public_truthy [OF ma] private_unless_public_truthy [OF mg]
    by (simp add: creation_request_def example_config_def dict_lookup_def dict_get_def
          py_or_def alpha_def gamma_def project_def)
qed

text \<open>
  C9 as stated fails: the value of \<^verbatim>\<open>public\<close> in \<open>delta\<close> is the string
  \<^verbatim>\<open>yes\<close>, not \<^verbatim>\<open>true\<close>, and the repository is created non-private.
\<close>

theorem public_truthy_not_true:
  "HttpPost \<lparr>post_url = ''https://api.github.com/orgs/acme/repos'',
             post_headers = [(''Authorization'', ''token ghp''),
                             (''Accept'', ''application/vnd.github+json'')],
             post_json = \<lparr>p_name = JStr ''delta'',
                           p_description =
                             JStr ''Mirror of team/delta from https://gitlab.example.com'',
                           p_private = False, p_auto_init = False\<rparr>\<rparr>
     \<in> set (fst (process_project example_config delta
                     (all_fine ''https://github.com/acme/delta.git'')))
   \<and> subscript delta ''public'' = Inr (JStr ''yes'')
   \<and> JStr ''yes'' \<noteq> JBool True"
proof -
  let ?rd = "creation_request example_config
               [(''path_with_namespace'', JStr ''team/delta''), (''path'', JStr ''delta''),
                (''http_url_to_repo'', JStr ''https://gitlab.example.com/team/delta.git''),
                (''public'', JStr ''yes'')]
               ''team/delta'' (JStr ''delta'')"
  have fd: "filter is_post (fst (process_project example_config delta
                     (all_fine ''https://github.com/acme/delta.git''))) = [HttpPost ?rd]"
    unfolding delta_def project_def
    by (subst process_project_facts(4) [where fp = "''team/delta''" and pn = "JStr ''delta''"])
       (simp_all add: dict_lookup_def dict_get_def sync_succeeds_def all_fine_def)
  have "HttpPost ?rd \<in> set (fst (process_project example_config delta
                     (all_fine ''https://github.com/acme/delta.git'')))"
    using fd by (rule filter_single_mem)
  then show ?thesis
    by (simp add: creation_request_def example_config_def dict_lookup_def dict_get_def
          py_or_def delta_def project_def)
qed

end
